theory Spec2Isabelle
  imports Complex_Main "HOL-Library.Word"
begin

section \<open>Face-recognition attendance service: model of app.py\<close>

text \<open>
  The service is a single Python module. Its state is one SQLite database (tables
  students, photos, attendance), the photo directory, and the module-level dictionary
  ENCODING_CACHE. The handlers are modelled as functions from a state to an outcome and a
  new state. The imaging and face-recognition libraries (base64, PIL, numpy,
  face_recognition) are not part of the module: what they compute is taken as a record of
  functions. Decoding base64, opening an image and converting it may fail, the failure
  being the left summand carrying the exception text; the module makes each of these calls
  inside a try block. The face encoder and the distance function are taken to return.

  Distances and embedding coordinates are floating-point numbers in the program; they are
  modelled as reals, which keeps the order comparisons the matcher makes (no NaN).
\<close>

subsection \<open>Data\<close>

type_synonym encoding = "real list"

text \<open>A grayscale frame: the uint8 array of shape (height, width), as a list of rows.\<close>

type_synonym gray = "8 word list list"

record 'img env =
  FACE_LIB_AVAILABLE :: bool
  b64decode :: "string \<Rightarrow> string + string"
  image_open :: "string \<Rightarrow> string + 'img"
  convert_L :: "'img \<Rightarrow> string + gray"
  convert_RGB :: "'img \<Rightarrow> string + 'img"
  face_encodings :: "'img \<Rightarrow> encoding list"
  face_distance :: "encoding \<Rightarrow> encoding \<Rightarrow> real"

text \<open>
  The rows of the three tables. The AUTOINCREMENT row ids are not modelled: a table is the
  list of its rows in insertion order. Of the students table only the columns the
  attendance handler reads are kept.
\<close>

record student =
  st_student_id :: nat
  st_roll_no :: "string option"
  st_name :: string

record photo =
  ph_student_id :: nat
  ph_photo_path :: string
  ph_filename :: string
  ph_created_at :: string

record attendance_row =
  at_student_id :: nat
  at_date :: string
  at_time_in :: string
  at_status :: string
  at_created_at :: string

record state =
  students :: "student list"
  photos :: "photo list"
  attendance :: "attendance_row list"
  files :: "string \<rightharpoonup> string"
  ENCODING_CACHE :: "string \<rightharpoonup> encoding"

text \<open>One reading of \<open>datetime.datetime.now()\<close>, in the formats the module prints it.\<close>

record timestamp =
  ts_compact :: string
  ts_date :: string
  ts_time :: string
  ts_iso :: string

subsection \<open>Strings\<close>

text \<open>\<open>b64.split(",", 1)[1]\<close> when the string holds a comma, the string itself otherwise.\<close>

definition strip_data_url :: "string \<Rightarrow> string" where
  "strip_data_url s =
     (if CHR '','' \<in> set s then tl (dropWhile (\<lambda>c. c \<noteq> CHR '','') s) else s)"

text \<open>Python's \<open>needle in haystack\<close> on strings.\<close>

fun str_contains :: "string \<Rightarrow> string \<Rightarrow> bool" where
  "str_contains needle [] = (needle = [])"
| "str_contains needle (c # cs) =
     (take (length needle) (c # cs) = needle \<or> str_contains needle cs)"

text \<open>\<open>str(n)\<close> for a non-negative integer.\<close>

definition digit_char :: "nat \<Rightarrow> char" where
  "digit_char d = char_of (48 + d)"

function str_nat :: "nat \<Rightarrow> string" where
  "str_nat n = (if n < 10 then [digit_char n] else str_nat (n div 10) @ [digit_char (n mod 10)])"
  by pat_completeness auto
termination
  by (relation "measure (\<lambda>n. n)") auto

declare str_nat.simps [simp del]

subsection \<open>JSON values\<close>

text \<open>
  A decoded JSON value, as \<open>request.get_json()\<close> hands it to a handler and as
  \<open>jsonify\<close> takes it. A number is \<open>JNat\<close> or \<open>JReal\<close>.
\<close>

datatype json =
  JNull
| JBool bool
| JNat nat
| JReal real
| JStr string
| JList "json list"
| JObj "(string \<times> json) list"

type_synonym response = "json \<times> nat"

definition failure :: "string \<Rightarrow> nat \<Rightarrow> response" where
  "failure msg code = (JObj [(''success'', JBool False), (''message'', JStr msg)], code)"

definition quoted :: "string \<Rightarrow> string" where
  "quoted s = [CHR 0x27] @ s @ [CHR 0x27]"

text \<open>The name Python prints for the type of a decoded value, and its truth value.\<close>

fun py_type :: "json \<Rightarrow> string" where
  "py_type JNull = ''NoneType''"
| "py_type (JBool b) = ''bool''"
| "py_type (JNat n) = ''int''"
| "py_type (JReal r) = ''float''"
| "py_type (JStr s) = ''str''"
| "py_type (JList xs) = ''list''"
| "py_type (JObj kvs) = ''dict''"

fun truthy :: "json \<Rightarrow> bool" where
  "truthy JNull = False"
| "truthy (JBool b) = b"
| "truthy (JNat n) = (n \<noteq> 0)"
| "truthy (JReal r) = (r \<noteq> 0)"
| "truthy (JStr s) = (s \<noteq> [])"
| "truthy (JList xs) = (xs \<noteq> [])"
| "truthy (JObj kvs) = (kvs \<noteq> [])"

text \<open>
  \<open>"," in b64\<close>: the substring test on a string, membership on a list and on the keys
  of a dict, and TypeError on a value that is no container.
\<close>

fun comma_in :: "json \<Rightarrow> string + bool" where
  "comma_in (JStr s) = Inr (CHR '','' \<in> set s)"
| "comma_in (JList xs) = Inr (JStr '','' \<in> set xs)"
| "comma_in (JObj kvs) = Inr ('','' \<in> set (map fst kvs))"
| "comma_in v = Inl (''argument of type '' @ quoted (py_type v) @ '' is not iterable'')"

text \<open>\<open>b64.split(",", 1)[1]\<close>, evaluated only after the test above: only a string has the method.\<close>

fun split_comma :: "json \<Rightarrow> string + json" where
  "split_comma (JStr s) = Inr (JStr (tl (dropWhile (\<lambda>c. c \<noteq> CHR '','') s)))"
| "split_comma v = Inl (quoted (py_type v) @ '' object has no attribute '' @ quoted ''split'')"

text \<open>The two lines \<open>if "," in b64: b64 = b64.split(",", 1)[1]\<close>.\<close>

definition strip_prefix :: "json \<Rightarrow> string + json" where
  "strip_prefix b64 =
     (case comma_in b64 of
        Inl e \<Rightarrow> Inl e
      | Inr c \<Rightarrow> if c then split_comma b64 else Inr b64)"

text \<open>\<open>base64.b64decode\<close> of a decoded value: TypeError unless it is a string.\<close>

definition py_b64decode :: "'img env \<Rightarrow> json \<Rightarrow> string + string" where
  "py_b64decode env v =
     (case v of
        JStr s \<Rightarrow> b64decode env s
      | _ \<Rightarrow> Inl (''argument should be a bytes-like object or ASCII string, not '' @
                  quoted (py_type v)))"

subsection \<open>Motion-based liveness check\<close>

text \<open>
  The body of the try block of the first loop:
  \<open>Image.open(io.BytesIO(base64.b64decode(b64))).convert("L")\<close> followed by \<open>np.array\<close>.
\<close>

definition decode_gray :: "'img env \<Rightarrow> json \<Rightarrow> string + gray" where
  "decode_gray env b64 =
     (case py_b64decode env b64 of
        Inl e \<Rightarrow> Inl e
      | Inr bytes \<Rightarrow>
          (case image_open env bytes of
             Inl e \<Rightarrow> Inl e
           | Inr im \<Rightarrow> convert_L env im))"

text \<open>
  The first loop. The comma test and the split stand before the try: what they raise
  leaves the function (\<open>Inl\<close>). \<open>Inr None\<close> stands for the \<open>return False\<close> of the except
  branch.
\<close>

fun decode_frames :: "'img env \<Rightarrow> json list \<Rightarrow> string + gray list option" where
  "decode_frames env [] = Inr (Some [])"
| "decode_frames env (b64 # rest) =
     (case strip_prefix b64 of
        Inl e \<Rightarrow> Inl e
      | Inr b \<Rightarrow>
          (case decode_gray env b of
             Inl e \<Rightarrow> Inr None
           | Inr arr \<Rightarrow>
               (case decode_frames env rest of
                  Inl e \<Rightarrow> Inl e
                | Inr None \<Rightarrow> Inr None
                | Inr (Some gs) \<Rightarrow> Inr (Some (arr # gs)))))"

text \<open>
  \<open>np.abs(a - b)\<close> on two int16 arrays follows numpy's broadcasting: two dimensions are
  compatible when they are equal or one of them is 1, and the subtraction raises
  ValueError otherwise. The pixel values are below 256, so the int16 difference does not
  wrap and is the integer difference.
\<close>

definition shape :: "gray \<Rightarrow> nat \<times> nat" where
  "shape a = (length a, case a of [] \<Rightarrow> 0 | r # _ \<Rightarrow> length r)"

definition broadcastable :: "nat \<Rightarrow> nat \<Rightarrow> bool" where
  "broadcastable m n = (m = n \<or> m = 1 \<or> n = 1)"

definition bdim :: "nat \<Rightarrow> nat \<Rightarrow> nat" where
  "bdim m n = (if m = 1 then n else m)"

definition bidx :: "nat \<Rightarrow> nat \<Rightarrow> nat" where
  "bidx d i = (if d = 1 then 0 else i)"

definition px :: "gray \<Rightarrow> nat \<Rightarrow> nat \<Rightarrow> int" where
  "px a i j = uint (a ! bidx (fst (shape a)) i ! bidx (snd (shape a)) j)"

text \<open>\<open>int((np.abs(a - b) > diff_threshold).sum())\<close>\<close>

definition count_above :: "gray \<Rightarrow> gray \<Rightarrow> int \<Rightarrow> string + nat" where
  "count_above a b diff_threshold =
     (if broadcastable (fst (shape a)) (fst (shape b)) \<and>
         broadcastable (snd (shape a)) (snd (shape b))
      then Inr (length (filter (\<lambda>(i, j). diff_threshold < \<bar>px a i j - px b i j\<bar>)
                  (List.product [0..<bdim (fst (shape a)) (fst (shape b))]
                                [0..<bdim (snd (shape a)) (snd (shape b))])))
      else Inl ''operands could not be broadcast together'')"

text \<open>The second loop, over the consecutive pairs.\<close>

fun motion_loop :: "gray list \<Rightarrow> int \<Rightarrow> int \<Rightarrow> string + bool" where
  "motion_loop (a # b # rest) threshold_pixels diff_threshold =
     (case count_above a b diff_threshold of
        Inl e \<Rightarrow> Inl e
      | Inr cnt \<Rightarrow>
          if threshold_pixels < int cnt then Inr True
          else motion_loop (b # rest) threshold_pixels diff_threshold)"
| "motion_loop gs threshold_pixels diff_threshold = Inr False"

definition frames_have_motion :: "'img env \<Rightarrow> json list \<Rightarrow> int \<Rightarrow> int \<Rightarrow> string + bool" where
  "frames_have_motion env frames_b64_list threshold_pixels diff_threshold =
     (if frames_b64_list = [] \<or> length frames_b64_list < 2 then Inr False
      else
        (case decode_frames env frames_b64_list of
           Inl e \<Rightarrow> Inl e
         | Inr None \<Rightarrow> Inr False
         | Inr (Some gray_frames) \<Rightarrow> motion_loop gray_frames threshold_pixels diff_threshold))"

text \<open>The default arguments of \<open>frames_have_motion\<close>.\<close>

definition default_threshold_pixels :: int where
  "default_threshold_pixels = 1000"

definition default_diff_threshold :: int where
  "default_diff_threshold = 30"

subsection \<open>Files and the embedding cache\<close>

text \<open>POSIX \<open>os.sep\<close> and \<open>os.path.join\<close> of a directory and one component.\<close>

definition os_sep :: string where
  "os_sep = ''/''"

definition os_path_join :: "string \<Rightarrow> string \<Rightarrow> string" where
  "os_path_join d f =
     (if take 1 f = os_sep then f
      else if d = [] \<or> drop (length d - 1) d = os_sep then d @ f
      else d @ os_sep @ f)"

text \<open>
  \<open>save_base64_image\<close>: decoding may raise; the write itself is taken to succeed. The
  photo directory is a parameter.
\<close>

definition save_base64_image ::
  "'img env \<Rightarrow> string \<Rightarrow> string \<Rightarrow> string \<Rightarrow> state \<Rightarrow> string + (string \<times> state)" where
  "save_base64_image env PHOTO_DIR base64_data filename st =
     (case b64decode env (strip_data_url base64_data) of
        Inl e \<Rightarrow> Inl e
      | Inr img_bytes \<Rightarrow>
          (let path = os_path_join PHOTO_DIR filename
           in Inr (path, st\<lparr>files := (files st)(path \<mapsto> img_bytes)\<rparr>)))"

text \<open>\<open>face_recognition.load_image_file\<close>: open the file and convert it to RGB.\<close>

definition load_image_file :: "'img env \<Rightarrow> state \<Rightarrow> string \<Rightarrow> string + 'img" where
  "load_image_file env st path =
     (case files st path of
        None \<Rightarrow> Inl ''No such file or directory''
      | Some bytes \<Rightarrow>
          (case image_open env bytes of
             Inl e \<Rightarrow> Inl e
           | Inr im \<Rightarrow> convert_RGB env im))"

definition compute_face_encoding_from_file ::
  "'img env \<Rightarrow> string \<Rightarrow> state \<Rightarrow> encoding option \<times> state" where
  "compute_face_encoding_from_file env path st =
     (if \<not> FACE_LIB_AVAILABLE env then (None, st)
      else
        (case ENCODING_CACHE st path of
           Some enc \<Rightarrow> (Some enc, st)
         | None \<Rightarrow>
             (case load_image_file env st path of
                Inl e \<Rightarrow> (None, st)
              | Inr img \<Rightarrow>
                  (case face_encodings env img of
                     [] \<Rightarrow> (None, st)
                   | enc # encs \<Rightarrow>
                       (Some enc, st\<lparr>ENCODING_CACHE := (ENCODING_CACHE st)(path \<mapsto> enc)\<rparr>)))))"

text \<open>\<open>ENCODING_CACHE.pop(k, None)\<close>\<close>

definition cache_pop :: "string \<Rightarrow> state \<Rightarrow> state" where
  "cache_pop k st = st\<lparr>ENCODING_CACHE := (ENCODING_CACHE st)(k := None)\<rparr>"

subsection \<open>Replacing a photo, deleting a student\<close>

record photo_request =
  rq_student_id :: "nat option"
  rq_photo :: "string option"

text \<open>The file paths of a student's photo rows, and the removal of those files.\<close>

definition photo_paths :: "state \<Rightarrow> nat \<Rightarrow> string list" where
  "photo_paths st student_id =
     map ph_photo_path (filter (\<lambda>p. ph_student_id p = student_id) (photos st))"

definition remove_files :: "string list \<Rightarrow> (string \<rightharpoonup> string) \<Rightarrow> (string \<rightharpoonup> string)" where
  "remove_files ps fs = (\<lambda>k. if k \<in> set ps \<and> k \<noteq> [] then None else fs k)"

text \<open>
  \<open>api_replace_photo\<close>. \<open>clock k\<close> is the value of the handler's k-th call of
  \<open>datetime.datetime.now()\<close>. The thread that warms the cache runs
  \<open>compute_face_encoding_from_file\<close> on the new path; the state returned is the one
  after that thread has finished.
\<close>

definition api_replace_photo ::
  "'img env \<Rightarrow> string \<Rightarrow> (nat \<Rightarrow> timestamp) \<Rightarrow> photo_request \<Rightarrow> state \<Rightarrow> response \<times> state" where
  "api_replace_photo env PHOTO_DIR clock req st =
     (case (rq_student_id req, rq_photo req) of
        (Some student_id, Some photo_b64) \<Rightarrow>
          if student_id = 0 \<or> photo_b64 = [] then
            (failure ''student_id and photo required'' 400, st)
          else if student_id \<notin> set (map st_student_id (students st)) then
            (failure ''student_id not found'' 404, st)
          else
            (let st1 = st\<lparr>files := remove_files (photo_paths st student_id) (files st),
                          photos := filter (\<lambda>p. ph_student_id p \<noteq> student_id) (photos st)\<rparr>;
                 filename = str_nat student_id @ ''_'' @ ts_compact (clock 0) @ ''.png''
             in case save_base64_image env PHOTO_DIR photo_b64 filename st1 of
                  Inl e \<Rightarrow> (failure (''Error saving replacement photo: '' @ e) 500, st1)
                | Inr (saved, st2) \<Rightarrow>
                    (let row = \<lparr>ph_student_id = student_id, ph_photo_path = saved,
                                 ph_filename = filename, ph_created_at = ts_iso (clock 1)\<rparr>;
                         st3 = st2\<lparr>photos := photos st2 @ [row]\<rparr>;
                         st4 = (if FACE_LIB_AVAILABLE env
                                then snd (compute_face_encoding_from_file env saved st3)
                                else st3)
                     in ((JObj [(''success'', JBool True),
                                (''photo_url'', JStr (''/photos/'' @ filename)),
                                (''message'', JStr ''Photo replaced'')], 200), st4)))
      | _ \<Rightarrow> (failure ''student_id and photo required'' 400, st))"

text \<open>The test of the cache-clearing loop of \<open>api_delete_student\<close> on one key.\<close>

definition evicts :: "nat \<Rightarrow> string \<Rightarrow> bool" where
  "evicts student_id k =
     (str_contains (os_sep @ str_nat student_id @ ''_'') k \<or>
      str_contains (str_nat student_id @ ''.'') k \<or>
      str_contains (str_nat student_id @ ''_'') k)"

definition api_delete_student :: "nat \<Rightarrow> state \<Rightarrow> response \<times> state" where
  "api_delete_student student_id st =
     (let st1 = st\<lparr>files := remove_files (photo_paths st student_id) (files st),
                   photos := filter (\<lambda>p. ph_student_id p \<noteq> student_id) (photos st),
                   attendance := filter (\<lambda>a. at_student_id a \<noteq> student_id) (attendance st),
                   students := filter (\<lambda>s. st_student_id s \<noteq> student_id) (students st)\<rparr>;
          st2 = st1\<lparr>ENCODING_CACHE :=
                      (\<lambda>k. if evicts student_id k then None else ENCODING_CACHE st1 k)\<rparr>
      in ((JObj [(''success'', JBool True), (''message'', JStr ''Deleted'')], 200), st2))"

subsection \<open>Marking attendance\<close>

text \<open>
  The request body, a JSON object: the values under the keys \<open>frames\<close> and \<open>image\<close>,
  \<open>None\<close> when the key is absent.
\<close>

record request =
  rq_frames :: "json option"
  rq_image :: "json option"

text \<open>One entry of the response's \<open>matched\<close> list.\<close>

record match =
  m_student_id :: nat
  m_name :: string
  m_roll_no :: "string option"
  m_photo_path :: string
  m_distance :: real

text \<open>One constructor for each return statement of \<open>api_mark_attendance\<close>, in order.\<close>

datatype outcome =
  LibUnavailable
| NoMotion
| LivenessFailed string
| DecodeFailed string
| NoInput
| NoFaces
| Matched "match list" bool

text \<open>
  The lines both branches of the handler run inside their try block: the comma test and
  the split, then \<open>Image.open(io.BytesIO(base64.b64decode(b64))).convert("RGB")\<close>.
\<close>

definition decode_rgb :: "'img env \<Rightarrow> json \<Rightarrow> string + 'img" where
  "decode_rgb env b64 =
     (case strip_prefix b64 of
        Inl e \<Rightarrow> Inl e
      | Inr b \<Rightarrow>
          (case py_b64decode env b of
             Inl e \<Rightarrow> Inl e
           | Inr img_bytes \<Rightarrow>
               (case image_open env img_bytes of
                  Inl e \<Rightarrow> Inl e
                | Inr im \<Rightarrow> convert_RGB env im)))"

text \<open>
  The loop that builds \<open>known_encodings\<close> and \<open>known_meta\<close> from the photo rows, through
  the cache.
\<close>

fun load_gallery ::
  "'img env \<Rightarrow> photo list \<Rightarrow> state \<Rightarrow> encoding list \<times> (nat \<times> string) list \<times> state" where
  "load_gallery env [] st = ([], [], st)"
| "load_gallery env (p # ps) st =
     (case compute_face_encoding_from_file env (ph_photo_path p) st of
        (None, st1) \<Rightarrow> load_gallery env ps st1
      | (Some enc, st1) \<Rightarrow>
          (case load_gallery env ps st1 of
             (known_encodings, known_meta, st2) \<Rightarrow>
               (enc # known_encodings, (ph_student_id p, ph_photo_path p) # known_meta, st2)))"

text \<open>
  \<open>np.argmin\<close>: the index of the first occurrence of the minimum. On an empty array numpy
  raises; the handler calls it only behind its \<open>len(known_encodings) == 0\<close> guard.
\<close>

fun np_argmin :: "real list \<Rightarrow> nat" where
  "np_argmin [] = 0"
| "np_argmin (x # xs) = (if xs = [] \<or> x \<le> xs ! np_argmin xs then 0 else Suc (np_argmin xs))"

definition THRESHOLD :: real where
  "THRESHOLD = 0.50"

text \<open>
  Lines 625 to 627 for one query embedding: the index the matcher selects in the gallery
  and the distance there.
\<close>

definition best_idx :: "'img env \<Rightarrow> encoding list \<Rightarrow> encoding \<Rightarrow> nat" where
  "best_idx env known_encodings unk =
     np_argmin (map (\<lambda>e. face_distance env e unk) known_encodings)"

definition best_distance :: "'img env \<Rightarrow> encoding list \<Rightarrow> encoding \<Rightarrow> real" where
  "best_distance env known_encodings unk =
     map (\<lambda>e. face_distance env e unk) known_encodings ! best_idx env known_encodings unk"

text \<open>
  The matching loop over \<open>unknown_encs\<close>. \<open>clock k\<close> is the reading of
  \<open>datetime.datetime.now()\<close> at the k-th accepted match of the request.
\<close>

fun match_loop ::
  "'img env \<Rightarrow> (nat \<Rightarrow> timestamp) \<Rightarrow> encoding list \<Rightarrow> (nat \<times> string) list \<Rightarrow>
   encoding list \<Rightarrow> nat \<Rightarrow> state \<Rightarrow> match list \<times> state" where
  "match_loop env clock known_encodings known_meta [] k st = ([], st)"
| "match_loop env clock known_encodings known_meta (unk # rest) k st =
     (if length known_encodings = 0 then
        match_loop env clock known_encodings known_meta rest k st
      else
        (let distances = map (\<lambda>e. face_distance env e unk) known_encodings;
             best_idx = np_argmin distances;
             best_distance = distances ! best_idx
         in if best_distance < THRESHOLD then
              (let sid = fst (known_meta ! best_idx);
                   ppath = snd (known_meta ! best_idx);
                   r = find (\<lambda>s. st_student_id s = sid) (students st);
                   name = (case r of Some s \<Rightarrow> st_name s | None \<Rightarrow> ''Unknown'');
                   roll_no = (case r of Some s \<Rightarrow> st_roll_no s | None \<Rightarrow> Some ''-'');
                   now = clock k;
                   st1 = st\<lparr>attendance := attendance st @
                            [\<lparr>at_student_id = sid, at_date = ts_date now,
                              at_time_in = ts_time now, at_status = ''present'',
                              at_created_at = ts_iso now\<rparr>]\<rparr>;
                   m = \<lparr>m_student_id = sid, m_name = name, m_roll_no = roll_no,
                        m_photo_path = ppath, m_distance = best_distance\<rparr>
               in case match_loop env clock known_encodings known_meta rest (Suc k) st1 of
                    (matches, st2) \<Rightarrow> (m # matches, st2))
            else match_loop env clock known_encodings known_meta rest k st))"

text \<open>The handler from the face encoding of the submitted image onwards.\<close>

definition recognise ::
  "'img env \<Rightarrow> (nat \<Rightarrow> timestamp) \<Rightarrow> bool \<Rightarrow> 'img \<Rightarrow> state \<Rightarrow> outcome \<times> state" where
  "recognise env clock liveness_checked pil_img st =
     (let unknown_encs = face_encodings env pil_img
      in if unknown_encs = [] then (NoFaces, st)
         else
           (case load_gallery env (photos st) st of
              (known_encodings, known_meta, st1) \<Rightarrow>
                (case match_loop env clock known_encodings known_meta unknown_encs 0 st1 of
                   (matches, st2) \<Rightarrow> (Matched matches liveness_checked, st2))))"

text \<open>
  The two tests of the handler's if/elif: \<open>frames\<close> is taken when it is a list of at
  least two entries, \<open>image\<close> when it is a value that counts as true.
\<close>

definition usable_frames :: "request \<Rightarrow> json list option" where
  "usable_frames req =
     (case rq_frames req of
        Some (JList frames) \<Rightarrow> if 2 \<le> length frames then Some frames else None
      | _ \<Rightarrow> None)"

definition usable_image :: "request \<Rightarrow> json option" where
  "usable_image req =
     (case rq_image req of
        Some image_single \<Rightarrow> if truthy image_single then Some image_single else None
      | None \<Rightarrow> None)"

definition mark_attendance ::
  "'img env \<Rightarrow> (nat \<Rightarrow> timestamp) \<Rightarrow> request \<Rightarrow> state \<Rightarrow> outcome \<times> state" where
  "mark_attendance env clock req st =
     (if \<not> FACE_LIB_AVAILABLE env then (LibUnavailable, st)
      else
        (case usable_frames req of
           Some frames \<Rightarrow>
             (case frames_have_motion env frames default_threshold_pixels default_diff_threshold of
                Inl e \<Rightarrow> (LivenessFailed e, st)
              | Inr is_live \<Rightarrow>
                  if \<not> is_live then (NoMotion, st)
                  else
                    (case decode_rgb env (frames ! (length frames div 2)) of
                       Inl e \<Rightarrow> (LivenessFailed e, st)
                     | Inr pil_img \<Rightarrow> recognise env clock True pil_img st))
         | None \<Rightarrow>
             (case usable_image req of
                Some image_single \<Rightarrow>
                  (case decode_rgb env image_single of
                     Inl e \<Rightarrow> (DecodeFailed e, st)
                   | Inr pil_img \<Rightarrow> recognise env clock False pil_img st)
              | None \<Rightarrow> (NoInput, st))))"

text \<open>The JSON body and the status code of each return statement.\<close>

definition match_json :: "match \<Rightarrow> json" where
  "match_json m =
     JObj [(''student_id'', JNat (m_student_id m)),
           (''name'', JStr (m_name m)),
           (''roll_no'', (case m_roll_no m of None \<Rightarrow> JNull | Some r \<Rightarrow> JStr r)),
           (''photo_path'', JStr (m_photo_path m)),
           (''distance'', JReal (m_distance m))]"

fun jsonify :: "outcome \<Rightarrow> response" where
  "jsonify LibUnavailable = failure ''face_recognition / numpy not available on server'' 500"
| "jsonify NoMotion =
     failure (''No motion detected '' @ [CHR 0xE2, CHR 0x80, CHR 0x94] @
              '' likely spoof (Option C)'') 403"
| "jsonify (LivenessFailed e) = failure (''Motion/liveness check failed: '' @ e) 500"
| "jsonify (DecodeFailed e) = failure (''Failed to decode image: '' @ e) 400"
| "jsonify NoInput =
     failure (''Provide '' @ quoted ''frames'' @ '' (recommended) or '' @ quoted ''image'') 400"
| "jsonify NoFaces =
     (JObj [(''success'', JBool True), (''matched'', JList []),
            (''message'', JStr ''No faces found'')], 200)"
| "jsonify (Matched matches liveness_checked) =
     (JObj [(''success'', JBool True), (''matched'', JList (map match_json matches)),
            (''liveness_checked'', JBool liveness_checked)], 200)"

definition api_mark_attendance ::
  "'img env \<Rightarrow> (nat \<Rightarrow> timestamp) \<Rightarrow> request \<Rightarrow> state \<Rightarrow> response \<times> state" where
  "api_mark_attendance env clock req st =
     (case mark_attendance env clock req st of (out, st') \<Rightarrow> (jsonify out, st'))"

text \<open>Whether a response body is an object with a boolean under the given key.\<close>

definition has_bool_field :: "string \<Rightarrow> response \<Rightarrow> bool" where
  "has_bool_field key resp =
     (case fst resp of
        JObj kvs \<Rightarrow> (case map_of kvs key of Some (JBool b) \<Rightarrow> True | _ \<Rightarrow> False)
      | _ \<Rightarrow> False)"

subsection \<open>The liveness rule in the specification's words\<close>

text \<open>
  The number of pixel positions of two frames of one size whose absolute luminance
  difference exceeds the per-pixel threshold, and the rule that some consecutive pair has
  more such pixels than the count threshold.
\<close>

definition spec_motion_pixels :: "gray \<Rightarrow> gray \<Rightarrow> int \<Rightarrow> nat" where
  "spec_motion_pixels a b diff_threshold =
     length (filter (\<lambda>(i, j). diff_threshold < \<bar>uint (a ! i ! j) - uint (b ! i ! j)\<bar>)
       (List.product [0..<fst (shape a)] [0..<snd (shape a)]))"

definition spec_is_live :: "gray list \<Rightarrow> int \<Rightarrow> int \<Rightarrow> bool" where
  "spec_is_live gs threshold_pixels diff_threshold =
     list_ex (\<lambda>(a, b). threshold_pixels < int (spec_motion_pixels a b diff_threshold))
       (zip gs (tl gs))"

subsection \<open>What the extractor finds in a stored photo\<close>

text \<open>
  Lines 119 to 120 of the module: the faces the encoder finds in the file at a path as it
  now is, none when the file cannot be loaded; and the first of a list of faces.
\<close>

definition extracted_faces :: "'img env \<Rightarrow> state \<Rightarrow> string \<Rightarrow> encoding list" where
  "extracted_faces env st path =
     (case load_image_file env st path of Inl e \<Rightarrow> [] | Inr img \<Rightarrow> face_encodings env img)"

definition first_face :: "encoding list \<Rightarrow> encoding option" where
  "first_face encs = (case encs of [] \<Rightarrow> None | enc # rest \<Rightarrow> Some enc)"

subsection \<open>A small installation used for the concrete runs\<close>

text \<open>
  Images are named by strings. Base64 text \<open>!\<close> does not decode and the bytes \<open>?\<close> are
  no image. Frame A is 1 by 2 pixels; frames B, C and D are 1 by 1001 pixels, B all
  black, C and D all white. Image B shows one face, image C two, any other image none;
  embeddings have one coordinate and their distance is the absolute difference.
\<close>

definition frame_A :: gray where
  "frame_A = [[0, 0]]"

definition frame_B :: gray where
  "frame_B = [replicate 1001 0]"

definition frame_C :: gray where
  "frame_C = [replicate 1001 255]"

definition demo_gray :: "string \<Rightarrow> gray" where
  "demo_gray s =
     (if s = ''A'' then frame_A else if s = ''B'' then frame_B
      else if s = ''C'' \<or> s = ''D'' then frame_C else [[7, 7]])"

definition env_demo :: "string env" where
  "env_demo = \<lparr>FACE_LIB_AVAILABLE = True,
     b64decode = (\<lambda>s. if s = ''!'' then Inl ''Incorrect padding'' else Inr s),
     image_open = (\<lambda>s. if s = ''?'' then Inl ''cannot identify image file'' else Inr s),
     convert_L = (\<lambda>s. Inr (demo_gray s)),
     convert_RGB = Inr,
     face_encodings =
       (\<lambda>s. if s = ''B'' then [[0.1]] else if s = ''C'' then [[0.9], [0.1]] else []),
     face_distance = (\<lambda>e u. \<bar>hd e - hd u\<bar>)\<rparr>"

text \<open>
  A clock that always reads the same instant, and a database of two students: student 7
  was enrolled with the photo named after the roll number, student 8 with an uploaded
  photo named after the student id. Both photos have a cache entry.
\<close>

definition clock_demo :: "nat \<Rightarrow> timestamp" where
  "clock_demo k = \<lparr>ts_compact = ''20240102030405'', ts_date = ''2024-01-02'',
     ts_time = ''03:04:05'', ts_iso = ''2024-01-02T03:04:05''\<rparr>"

definition path_R1 :: string where
  "path_R1 = ''/srv/static/photos/R1.png''"

definition path_8 :: string where
  "path_8 = ''/srv/static/photos/8_20240101000000.png''"

definition st_demo :: state where
  "st_demo = \<lparr>students = [\<lparr>st_student_id = 7, st_roll_no = Some ''R1'', st_name = ''Ann''\<rparr>,
                           \<lparr>st_student_id = 8, st_roll_no = None, st_name = ''Bob''\<rparr>],
     photos = [\<lparr>ph_student_id = 7, ph_photo_path = path_R1, ph_filename = ''R1.png'',
                ph_created_at = ''2024-01-01T00:00:00''\<rparr>,
               \<lparr>ph_student_id = 8, ph_photo_path = path_8,
                ph_filename = ''8_20240101000000.png'',
                ph_created_at = ''2024-01-01T00:00:00''\<rparr>],
     attendance = [],
     files = [path_R1 \<mapsto> ''B'', path_8 \<mapsto> ''C''],
     ENCODING_CACHE = [path_R1 \<mapsto> [0.1], path_8 \<mapsto> [0.9]]\<rparr>"

text \<open>
  Two variants: in the first the file of student 7 shows no face and the cache is empty,
  in the second the cache holds an embedding that is not the one of the file.
\<close>

definition st_noface :: state where
  "st_noface = st_demo\<lparr>files := [path_R1 \<mapsto> ''X''], ENCODING_CACHE := Map.empty\<rparr>"

definition st_stale :: state where
  "st_stale = st_demo\<lparr>ENCODING_CACHE := [path_R1 \<mapsto> [0.7]]\<rparr>"

text \<open>The database with one attendance row of student 8 already recorded on that day.\<close>

definition st_seen :: state where
  "st_seen = st_demo\<lparr>attendance :=
     [\<lparr>at_student_id = 8, at_date = ''2024-01-02'', at_time_in = ''01:00:00'',
       at_status = ''present'', at_created_at = ''2024-01-02T01:00:00''\<rparr>]\<rparr>"

section \<open>Properties\<close>

subsection \<open>Liveness\<close>

lemma strip_prefix_str: "strip_prefix (JStr s) = Inr (JStr (strip_data_url s))"
  by (simp add: strip_prefix_def strip_data_url_def)

lemma strip_prefix_demo:
  "strip_prefix (JStr ''A'') = Inr (JStr ''A'')"
  "strip_prefix (JStr ''B'') = Inr (JStr ''B'')"
  "strip_prefix (JStr ''C'') = Inr (JStr ''C'')"
  "strip_prefix (JStr ''D'') = Inr (JStr ''D'')"
  "strip_prefix (JStr ''X'') = Inr (JStr ''X'')"
  "strip_prefix (JStr ''!'') = Inr (JStr ''!'')"
  by (simp_all add: strip_prefix_def)

lemma decode_gray_demo:
  "decode_gray env_demo (JStr ''A'') = Inr frame_A"
  "decode_gray env_demo (JStr ''B'') = Inr frame_B"
  "decode_gray env_demo (JStr ''C'') = Inr frame_C"
  "decode_gray env_demo (JStr ''D'') = Inr frame_C"
  "decode_gray env_demo (JStr ''!'') = Inl ''Incorrect padding''"
  by (simp_all add: decode_gray_def py_b64decode_def env_demo_def demo_gray_def)

lemma shape_demo:
  "shape frame_A = (1, 2)" "shape frame_B = (1, 1001)" "shape frame_C = (1, 1001)"
  by (simp_all add: shape_def frame_A_def frame_B_def frame_C_def)

text \<open>
  On a list of strings the first loop raises nothing, and it gives up exactly when the
  try block fails on one of them.
\<close>

lemma decode_frames_strings:
  "decode_frames env (map JStr ss) \<noteq> Inl e"
  "decode_frames env (map JStr ss) = Inr None \<longleftrightarrow>
     (\<exists>s \<in> set ss. isl (decode_gray env (JStr (strip_data_url s))))"
  by (induction ss) (auto simp: strip_prefix_str split: sum.splits option.splits)

lemma liveness_fails_closed_on_strings:
  "(length frames < 2 \<longrightarrow> frames_have_motion env frames tp dt = Inr False) \<and>
   ((\<exists>s \<in> set ss. isl (decode_gray env (JStr (strip_data_url s)))) \<longrightarrow>
      frames_have_motion env (map JStr ss) tp dt = Inr False)"
  using decode_frames_strings(2)[of env ss]
  by (auto simp: frames_have_motion_def split: option.splits sum.splits)

text \<open>
  C3 fails on the code. The handler hands over the entries of the JSON list as they are,
  and the test \<open>"," in b64\<close> of the first loop stands before the try block: on a frame
  list that holds a null or a number the check raises TypeError instead of returning
  False, and the handler answers 500. A frame that fails inside the try block, as the
  text \<open>!\<close> does, gives False.
\<close>

theorem liveness_raises_on_non_string_frame:
  "frames_have_motion env_demo [JNull, JStr ''B''] default_threshold_pixels
     default_diff_threshold
     = Inl (''argument of type '' @ quoted ''NoneType'' @ '' is not iterable'') \<and>
   frames_have_motion env_demo [JStr ''B'', JNat 5] default_threshold_pixels
     default_diff_threshold
     = Inl (''argument of type '' @ quoted ''int'' @ '' is not iterable'') \<and>
   fst (api_mark_attendance env_demo clock_demo
          \<lparr>rq_frames = Some (JList [JNull, JStr ''B'']), rq_image = None\<rparr> st_demo)
     = failure (''Motion/liveness check failed: '' @ ''argument of type '' @
                quoted ''NoneType'' @ '' is not iterable'') 500 \<and>
   frames_have_motion env_demo [JStr ''!'', JStr ''B''] default_threshold_pixels
     default_diff_threshold = Inr False"
proof -
  have a: "frames_have_motion env_demo [JNull, JStr ''B''] default_threshold_pixels
     default_diff_threshold
     = Inl (''argument of type '' @ quoted ''NoneType'' @ '' is not iterable'')"
    by (simp add: frames_have_motion_def strip_prefix_def)
  have b: "frames_have_motion env_demo [JStr ''B'', JNat 5] default_threshold_pixels
     default_diff_threshold
     = Inl (''argument of type '' @ quoted ''int'' @ '' is not iterable'')"
    by (simp add: frames_have_motion_def strip_prefix_demo decode_gray_demo strip_prefix_def)
  have c: "frames_have_motion env_demo [JStr ''!'', JStr ''B''] default_threshold_pixels
     default_diff_threshold = Inr False"
    by (simp add: frames_have_motion_def strip_prefix_demo decode_gray_demo)
  have lib: "FACE_LIB_AVAILABLE env_demo" by (simp add: env_demo_def)
  have "mark_attendance env_demo clock_demo
          \<lparr>rq_frames = Some (JList [JNull, JStr ''B'']), rq_image = None\<rparr> st_demo
     = (LivenessFailed (''argument of type '' @ quoted ''NoneType'' @ '' is not iterable''),
        st_demo)"
    using lib by (simp add: mark_attendance_def usable_frames_def a)
  then have "fst (api_mark_attendance env_demo clock_demo
          \<lparr>rq_frames = Some (JList [JNull, JStr ''B'']), rq_image = None\<rparr> st_demo)
     = failure (''Motion/liveness check failed: '' @ ''argument of type '' @
                quoted ''NoneType'' @ '' is not iterable'') 500"
    by (simp add: api_mark_attendance_def)
  with a b c show ?thesis by blast
qed

text \<open>Inside the bounds of an array the broadcast index is the index itself.\<close>

lemma bidx_in_range: "i < d \<Longrightarrow> bidx d i = i"
  by (simp add: bidx_def)

lemma px_in_range:
  "i < fst (shape a) \<Longrightarrow> j < snd (shape a) \<Longrightarrow> px a i j = uint (a ! i ! j)"
  by (simp add: px_def bidx_in_range)

lemma count_above_same:
  assumes "shape a = shape b"
  shows "count_above a b dt = Inr (spec_motion_pixels a b dt)"
proof -
  let ?idx = "List.product [0..<fst (shape a)] [0..<snd (shape a)]"
  have "filter (\<lambda>(i, j). dt < \<bar>px a i j - px b i j\<bar>) ?idx
      = filter (\<lambda>(i, j). dt < \<bar>uint (a ! i ! j) - uint (b ! i ! j)\<bar>) ?idx"
  proof (rule filter_cong)
    fix x assume "x \<in> set ?idx"
    then have "fst x < fst (shape a)" "snd x < snd (shape a)" by auto
    then have "px a (fst x) (snd x) = uint (a ! fst x ! snd x)"
      "px b (fst x) (snd x) = uint (b ! fst x ! snd x)"
      using assms by (simp_all add: px_in_range)
    then show "(case x of (i, j) \<Rightarrow> dt < \<bar>px a i j - px b i j\<bar>) =
               (case x of (i, j) \<Rightarrow> dt < \<bar>uint (a ! i ! j) - uint (b ! i ! j)\<bar>)"
      by (simp add: case_prod_beta)
  qed simp
  moreover have "bdim (fst (shape a)) (fst (shape b)) = fst (shape a)"
    "bdim (snd (shape a)) (snd (shape b)) = snd (shape a)"
    using assms by (simp_all add: bdim_def)
  ultimately show ?thesis
    using assms by (simp add: count_above_def spec_motion_pixels_def broadcastable_def)
qed

lemma motion_loop_same:
  "\<forall>g \<in> set gs. shape g = s \<Longrightarrow> motion_loop gs tp dt = Inr (spec_is_live gs tp dt)"
  by (induction gs tp dt rule: motion_loop.induct)
    (simp_all add: count_above_same spec_is_live_def)

lemma spec_motion_pixels_same: "0 \<le> dt \<Longrightarrow> spec_motion_pixels a a dt = 0"
  by (simp add: spec_motion_pixels_def)

lemma pixels_B_C: "spec_motion_pixels frame_B frame_C 30 = 1001"
proof -
  have "filter (\<lambda>(i, j). (30::int) < \<bar>uint (frame_B ! i ! j) - uint (frame_C ! i ! j)\<bar>)
          (List.product [0..<1] [0..<1001]) = List.product [0..<1] [0..<1001]"
    by (rule filter_True) (auto simp: frame_B_def frame_C_def)
  then show ?thesis
    by (simp add: spec_motion_pixels_def shape_demo)
qed

text \<open>
  C4, as the code has it. For at least two decodable frames that all have the same
  height and width, the check returns True exactly when some consecutive pair has more
  than \<open>threshold_pixels\<close> pixels whose absolute grayscale difference exceeds
  \<open>diff_threshold\<close>. With thresholds that are not negative (the defaults are 1000 and
  30), two identical frames give False.
\<close>

theorem liveness_iff_motion_same_shape:
  "(decode_frames env frames = Inr (Some gs) \<and> 2 \<le> length frames \<and>
    (\<forall>g \<in> set gs. shape g = s)
      \<longrightarrow> frames_have_motion env frames tp dt = Inr (spec_is_live gs tp dt)) \<and>
   (0 \<le> tp \<and> 0 \<le> dt \<longrightarrow> frames_have_motion env [JStr f, JStr f] tp dt = Inr False)"
proof (intro conjI impI)
  assume "decode_frames env frames = Inr (Some gs) \<and> 2 \<le> length frames \<and>
    (\<forall>g \<in> set gs. shape g = s)"
  then show "frames_have_motion env frames tp dt = Inr (spec_is_live gs tp dt)"
    using motion_loop_same[of gs s tp dt] by (auto simp: frames_have_motion_def)
next
  assume "0 \<le> tp \<and> 0 \<le> dt"
  then show "frames_have_motion env [JStr f, JStr f] tp dt = Inr False"
    by (auto simp: frames_have_motion_def strip_prefix_str count_above_same
        spec_motion_pixels_same split: sum.splits)
qed

theorem liveness_iff_motion_same_shape_witness:
  "frames_have_motion env_demo [JStr ''B'', JStr ''C''] default_threshold_pixels
     default_diff_threshold = Inr True \<and>
   frames_have_motion env_demo [JStr ''B'', JStr ''B''] default_threshold_pixels
     default_diff_threshold = Inr False"
  using liveness_iff_motion_same_shape[of env_demo "[JStr ''B'', JStr ''C'']"
      "[frame_B, frame_C]" "(1, 1001)" default_threshold_pixels default_diff_threshold "''B''"]
  by (simp add: strip_prefix_demo decode_gray_demo shape_demo spec_is_live_def pixels_B_C
      default_threshold_pixels_def default_diff_threshold_def)

text \<open>
  C4 as stated fails when the frames differ in size: frames A, B, C all decode, the pair
  (B, C) has 1001 pixels that differ by 255, and the check raises at the pair (A, B)
  instead of returning True.
\<close>

theorem liveness_shape_mismatch_counterexample:
  "decode_frames env_demo [JStr ''A'', JStr ''B'', JStr ''C'']
     = Inr (Some [frame_A, frame_B, frame_C]) \<and>
   default_threshold_pixels < int (spec_motion_pixels frame_B frame_C default_diff_threshold) \<and>
   frames_have_motion env_demo [JStr ''A'', JStr ''B'', JStr ''C''] default_threshold_pixels
     default_diff_threshold = Inl ''operands could not be broadcast together''"
  by (simp add: strip_prefix_demo decode_gray_demo pixels_B_C default_threshold_pixels_def
      default_diff_threshold_def frames_have_motion_def count_above_def shape_demo
      broadcastable_def)

subsection \<open>The embedding cache\<close>

lemma compute_miss:
  "FACE_LIB_AVAILABLE env \<Longrightarrow> ENCODING_CACHE st path = None \<Longrightarrow>
   compute_face_encoding_from_file env path st =
     (case extracted_faces env st path of
        [] \<Rightarrow> (None, st)
      | enc # rest \<Rightarrow> (Some enc, st\<lparr>ENCODING_CACHE := (ENCODING_CACHE st)(path \<mapsto> enc)\<rparr>))"
  by (simp add: compute_face_encoding_from_file_def extracted_faces_def
      split: sum.splits list.splits)

lemma compute_hit:
  "FACE_LIB_AVAILABLE env \<Longrightarrow> ENCODING_CACHE st path = Some enc \<Longrightarrow>
   compute_face_encoding_from_file env path st = (Some enc, st)"
  by (simp add: compute_face_encoding_from_file_def)

lemma extracted_faces_cache [simp]:
  "extracted_faces env (st\<lparr>ENCODING_CACHE := c\<rparr>) path = extracted_faces env st path"
  by (simp add: extracted_faces_def load_image_file_def)

text \<open>
  C7. With the face library present: a lookup that misses the cache and finds no face
  returns None and leaves the state as it was, so that the next lookup of the same path,
  whatever the file then holds, returns what the extractor finds then; the entry of a
  path changes only on a miss whose extraction found a face, and then to the first face
  found; and after the entry of a path is popped, the lookup returns what the extractor
  finds in the file, not the value that was cached.
\<close>

theorem cache_stores_only_on_success:
  assumes "FACE_LIB_AVAILABLE env" and "FACE_LIB_AVAILABLE env'"
  shows "(ENCODING_CACHE st path = None \<and> extracted_faces env st path = [] \<longrightarrow>
           compute_face_encoding_from_file env path st = (None, st) \<and>
           fst (compute_face_encoding_from_file env' path
                  ((snd (compute_face_encoding_from_file env path st))\<lparr>files := fs'\<rparr>))
             = first_face (extracted_faces env' (st\<lparr>files := fs'\<rparr>) path)) \<and>
         (ENCODING_CACHE (snd (compute_face_encoding_from_file env path st)) path
            \<noteq> ENCODING_CACHE st path \<longrightarrow>
           ENCODING_CACHE st path = None \<and>
           first_face (extracted_faces env st path)
             = ENCODING_CACHE (snd (compute_face_encoding_from_file env path st)) path) \<and>
         fst (compute_face_encoding_from_file env path (cache_pop path st))
           = first_face (extracted_faces env st path)"
proof (intro conjI impI)
  assume a: "ENCODING_CACHE st path = None \<and> extracted_faces env st path = []"
  then show b: "compute_face_encoding_from_file env path st = (None, st)"
    using assms by (simp add: compute_miss)
  have "ENCODING_CACHE (st\<lparr>files := fs'\<rparr>) path = None" using a by simp
  then show "fst (compute_face_encoding_from_file env' path
                  ((snd (compute_face_encoding_from_file env path st))\<lparr>files := fs'\<rparr>))
             = first_face (extracted_faces env' (st\<lparr>files := fs'\<rparr>) path)"
    using assms b by (simp add: compute_miss first_face_def split: list.splits)
next
  assume c: "ENCODING_CACHE (snd (compute_face_encoding_from_file env path st)) path
            \<noteq> ENCODING_CACHE st path"
  show d: "ENCODING_CACHE st path = None"
  proof (cases "ENCODING_CACHE st path")
    case (Some enc)
    then show ?thesis using c assms by (simp add: compute_hit)
  qed simp
  show "first_face (extracted_faces env st path)
             = ENCODING_CACHE (snd (compute_face_encoding_from_file env path st)) path"
    using c d assms by (simp add: compute_miss first_face_def split: list.splits)
next
  have "ENCODING_CACHE (cache_pop path st) path = None" by (simp add: cache_pop_def)
  then show "fst (compute_face_encoding_from_file env path (cache_pop path st))
           = first_face (extracted_faces env st path)"
    using assms by (simp add: compute_miss first_face_def cache_pop_def split: list.splits)
qed

lemma paths_distinct: "path_R1 \<noteq> path_8"
  by (simp add: path_R1_def path_8_def)

lemma extracted_demo:
  "extracted_faces env_demo st_noface path_R1 = []"
  "extracted_faces env_demo (st_noface\<lparr>files := [path_R1 \<mapsto> ''B'']\<rparr>) path_R1 = [[0.1]]"
  "extracted_faces env_demo st_stale path_R1 = [[0.1]]"
  by (simp_all add: extracted_faces_def load_image_file_def env_demo_def st_noface_def
      st_stale_def st_demo_def paths_distinct)

theorem cache_stores_only_on_success_witness:
  "fst (compute_face_encoding_from_file env_demo path_R1 st_noface) = None \<and>
   fst (compute_face_encoding_from_file env_demo path_R1
          ((snd (compute_face_encoding_from_file env_demo path_R1 st_noface))
             \<lparr>files := [path_R1 \<mapsto> ''B'']\<rparr>)) = Some [0.1] \<and>
   fst (compute_face_encoding_from_file env_demo path_R1 st_stale) = Some [0.7] \<and>
   fst (compute_face_encoding_from_file env_demo path_R1 (cache_pop path_R1 st_stale))
     = Some [0.1]"
proof -
  have lib: "FACE_LIB_AVAILABLE env_demo" by (simp add: env_demo_def)
  have "ENCODING_CACHE st_noface path_R1 = None" by (simp add: st_noface_def)
  then have miss: "ENCODING_CACHE st_noface path_R1 = None \<and>
      extracted_faces env_demo st_noface path_R1 = []"
    by (simp add: extracted_demo)
  have hit: "ENCODING_CACHE st_stale path_R1 = Some [0.7]" by (simp add: st_stale_def)
  from miss cache_stores_only_on_success[OF lib lib, of st_noface path_R1 "[path_R1 \<mapsto> ''B'']"]
  have "compute_face_encoding_from_file env_demo path_R1 st_noface = (None, st_noface) \<and>
      fst (compute_face_encoding_from_file env_demo path_R1
          ((snd (compute_face_encoding_from_file env_demo path_R1 st_noface))
             \<lparr>files := [path_R1 \<mapsto> ''B'']\<rparr>))
        = first_face (extracted_faces env_demo (st_noface\<lparr>files := [path_R1 \<mapsto> ''B'']\<rparr>) path_R1)"
    by blast
  then have a0: "compute_face_encoding_from_file env_demo path_R1 st_noface = (None, st_noface)"
    and b0: "fst (compute_face_encoding_from_file env_demo path_R1
          ((snd (compute_face_encoding_from_file env_demo path_R1 st_noface))
             \<lparr>files := [path_R1 \<mapsto> ''B'']\<rparr>))
        = first_face (extracted_faces env_demo (st_noface\<lparr>files := [path_R1 \<mapsto> ''B'']\<rparr>) path_R1)"
    by blast+
  have a: "fst (compute_face_encoding_from_file env_demo path_R1 st_noface) = None"
    by (simp only: a0 fst_conv)
  have b: "fst (compute_face_encoding_from_file env_demo path_R1
          ((snd (compute_face_encoding_from_file env_demo path_R1 st_noface))
             \<lparr>files := [path_R1 \<mapsto> ''B'']\<rparr>)) = Some [0.1]"
    using b0 by (simp only: extracted_demo first_face_def list.case)
  have c: "fst (compute_face_encoding_from_file env_demo path_R1 st_stale) = Some [0.7]"
    using compute_hit[OF lib hit] by simp
  from cache_stores_only_on_success[OF lib lib, of st_stale path_R1 Map.empty]
  have "fst (compute_face_encoding_from_file env_demo path_R1 (cache_pop path_R1 st_stale))
      = first_face (extracted_faces env_demo st_stale path_R1)"
    by blast
  then have d: "fst (compute_face_encoding_from_file env_demo path_R1
      (cache_pop path_R1 st_stale)) = Some [0.1]"
    by (simp only: extracted_demo first_face_def list.case)
  from a b c d show ?thesis by blast
qed

lemma str_nat_demo: "str_nat 7 = ''7''" "str_nat 8 = ''8''"
  by code_simp+

lemma evicts_R1: "evicts 7 path_R1 = False"
  by (simp add: evicts_def str_nat_demo path_R1_def os_sep_def)

text \<open>Replacing a photo removes no entry of the cache.\<close>

lemma replace_keeps_cache:
  "ENCODING_CACHE st k = Some e \<Longrightarrow>
   ENCODING_CACHE (snd (api_replace_photo env PHOTO_DIR clock req st)) k = Some e"
  by (auto simp: api_replace_photo_def save_base64_image_def Let_def
      compute_face_encoding_from_file_def
      split: option.splits sum.splits prod.splits list.splits)

text \<open>
  C2 fails on the code. Deleting student 7, whose only photo is stored at the path
  \<open>path_R1\<close>, leaves the cache entry of that path in place: the loop that clears the
  cache looks for the student id in the key, and a photo enrolled under the roll number
  does not carry it. Replacing the photo of student 8 succeeds and leaves the entry of
  the replaced photo's path in place: the handler never touches the cache.
\<close>

theorem cache_entries_survive_delete_and_replace:
  "photo_paths st_demo 7 = [path_R1] \<and>
   ENCODING_CACHE (snd (api_delete_student 7 st_demo)) path_R1 = Some [0.1] \<and>
   photo_paths st_demo 8 = [path_8] \<and>
   fst (api_replace_photo env_demo ''/srv/static/photos'' clock_demo
          \<lparr>rq_student_id = Some 8, rq_photo = Some ''B''\<rparr> st_demo) =
     (JObj [(''success'', JBool True),
            (''photo_url'', JStr ''/photos/8_20240102030405.png''),
            (''message'', JStr ''Photo replaced'')], 200) \<and>
   ENCODING_CACHE (snd (api_replace_photo env_demo ''/srv/static/photos'' clock_demo
          \<lparr>rq_student_id = Some 8, rq_photo = Some ''B''\<rparr> st_demo)) path_8 = Some [0.9]"
proof (intro conjI)
  show "photo_paths st_demo 7 = [path_R1]" "photo_paths st_demo 8 = [path_8]"
    by (simp_all add: photo_paths_def st_demo_def)
  show "ENCODING_CACHE (snd (api_delete_student 7 st_demo)) path_R1 = Some [0.1]"
    by (simp add: api_delete_student_def evicts_R1 Let_def st_demo_def paths_distinct)
  show "fst (api_replace_photo env_demo ''/srv/static/photos'' clock_demo
          \<lparr>rq_student_id = Some 8, rq_photo = Some ''B''\<rparr> st_demo) =
     (JObj [(''success'', JBool True),
            (''photo_url'', JStr ''/photos/8_20240102030405.png''),
            (''message'', JStr ''Photo replaced'')], 200)"
    by (simp add: api_replace_photo_def st_demo_def save_base64_image_def env_demo_def
        strip_data_url_def Let_def str_nat_demo clock_demo_def)
  show "ENCODING_CACHE (snd (api_replace_photo env_demo ''/srv/static/photos'' clock_demo
          \<lparr>rq_student_id = Some 8, rq_photo = Some ''B''\<rparr> st_demo)) path_8 = Some [0.9]"
    by (rule replace_keeps_cache) (simp add: st_demo_def paths_distinct)
qed

subsection \<open>The matcher\<close>

lemma np_argmin_less: "ds \<noteq> [] \<Longrightarrow> np_argmin ds < length ds"
  by (induction ds) auto

lemma np_argmin_le: "j < length ds \<Longrightarrow> ds ! np_argmin ds \<le> ds ! j"
proof (induction ds arbitrary: j)
  case Nil
  then show ?case by simp
next
  case (Cons x xs)
  show ?case
  proof (cases j)
    case 0
    then show ?thesis by auto
  next
    case (Suc j')
    with Cons.prems have lt: "j' < length xs" by simp
    then have "xs ! np_argmin xs \<le> xs ! j'" by (rule Cons.IH)
    with Suc lt show ?thesis by auto
  qed
qed

lemma np_argmin_first: "j < np_argmin ds \<Longrightarrow> ds ! np_argmin ds < ds ! j"
proof (induction ds arbitrary: j)
  case Nil
  then show ?case by simp
next
  case (Cons x xs)
  show ?case
  proof (cases "xs = [] \<or> x \<le> xs ! np_argmin xs")
    case True
    with Cons.prems show ?thesis by simp
  next
    case False
    show ?thesis
    proof (cases j)
      case 0
      with False show ?thesis by auto
    next
      case (Suc j')
      with Cons.prems False have "j' < np_argmin xs" by simp
      then have "xs ! np_argmin xs < xs ! j'" by (rule Cons.IH)
      with Suc False show ?thesis by simp
    qed
  qed
qed

lemma load_gallery_lengths:
  "load_gallery env ps st = (known_encodings, known_meta, st') \<Longrightarrow>
   length known_meta = length known_encodings"
  by (induction ps arbitrary: st known_encodings known_meta st')
    (auto split: prod.splits option.splits)

text \<open>One round of the matching loop: a query that is not matched, and one that is.\<close>

lemma match_loop_miss:
  "known_encodings = [] \<or>
   \<not> map (\<lambda>e. face_distance env e unk) known_encodings
       ! np_argmin (map (\<lambda>e. face_distance env e unk) known_encodings) < THRESHOLD \<Longrightarrow>
   match_loop env clock known_encodings known_meta (unk # rest) k st =
   match_loop env clock known_encodings known_meta rest k st"
  by (auto simp: Let_def)

lemma match_loop_hit:
  assumes "known_encodings \<noteq> []"
    and "map (\<lambda>e. face_distance env e unk) known_encodings
       ! np_argmin (map (\<lambda>e. face_distance env e unk) known_encodings) < THRESHOLD"
  shows "\<exists>m. m_student_id m =
            fst (known_meta ! np_argmin (map (\<lambda>e. face_distance env e unk) known_encodings)) \<and>
          m_photo_path m =
            snd (known_meta ! np_argmin (map (\<lambda>e. face_distance env e unk) known_encodings)) \<and>
          m_distance m = map (\<lambda>e. face_distance env e unk) known_encodings
            ! np_argmin (map (\<lambda>e. face_distance env e unk) known_encodings) \<and>
          match_loop env clock known_encodings known_meta (unk # rest) k st =
            (m # fst (match_loop env clock known_encodings known_meta rest (Suc k)
                        (st\<lparr>attendance := attendance st @
                           [\<lparr>at_student_id = m_student_id m, at_date = ts_date (clock k),
                             at_time_in = ts_time (clock k), at_status = ''present'',
                             at_created_at = ts_iso (clock k)\<rparr>]\<rparr>)),
             snd (match_loop env clock known_encodings known_meta rest (Suc k)
                        (st\<lparr>attendance := attendance st @
                           [\<lparr>at_student_id = m_student_id m, at_date = ts_date (clock k),
                             at_time_in = ts_time (clock k), at_status = ''present'',
                             at_created_at = ts_iso (clock k)\<rparr>]\<rparr>)))"
  using assms by (simp add: Let_def split: prod.splits)

text \<open>
  What the loop emits for a list of query embeddings: in their order, one match for each
  query whose selected distance is below the threshold, with the student id and photo
  path of the selected entry and that distance.
\<close>

lemma match_loop_triples:
  assumes "known_encodings \<noteq> []"
  shows "map (\<lambda>m. (m_student_id m, m_photo_path m, m_distance m))
           (fst (match_loop env clock known_encodings known_meta unknown_encs k st)) =
         map (\<lambda>unk. (fst (known_meta ! best_idx env known_encodings unk),
                      snd (known_meta ! best_idx env known_encodings unk),
                      best_distance env known_encodings unk))
           (filter (\<lambda>unk. best_distance env known_encodings unk < THRESHOLD) unknown_encs)"
proof (induction unknown_encs arbitrary: k st)
  case Nil
  then show ?case by simp
next
  case (Cons unk rest)
  show ?case
  proof (cases "best_distance env known_encodings unk < THRESHOLD")
    case False
    then have "match_loop env clock known_encodings known_meta (unk # rest) k st =
        match_loop env clock known_encodings known_meta rest k st"
      using match_loop_miss[of known_encodings env unk clock known_meta rest k st]
      by (simp add: best_distance_def best_idx_def)
    then show ?thesis using False Cons.IH by simp
  next
    case True
    then have "map (\<lambda>e. face_distance env e unk) known_encodings
       ! np_argmin (map (\<lambda>e. face_distance env e unk) known_encodings) < THRESHOLD"
      by (simp add: best_distance_def best_idx_def)
    from match_loop_hit[OF assms this, of known_meta clock rest k st]
    obtain m st1 where m: "m_student_id m = fst (known_meta ! best_idx env known_encodings unk)"
        "m_photo_path m = snd (known_meta ! best_idx env known_encodings unk)"
        "m_distance m = best_distance env known_encodings unk"
      and step: "fst (match_loop env clock known_encodings known_meta (unk # rest) k st) =
        m # fst (match_loop env clock known_encodings known_meta rest (Suc k) st1)"
      by (auto simp: best_distance_def best_idx_def)
    show ?thesis
      using True m Cons.IH[of "Suc k" st1] by (simp add: step del: match_loop.simps)
  qed
qed

text \<open>
  C1. Against a gallery that is not empty the matcher selects, for every query embedding,
  the entry at the least distance to the query, the first such entry when several are at
  that distance; it emits a match for exactly the queries whose least distance is below
  0.50, in their order, and each match carries the student id and photo path of the
  selected entry and the distance.
\<close>

theorem matcher_first_minimum_below_threshold:
  assumes "known_encodings \<noteq> []"
    and "length known_meta = length known_encodings"
  shows "map (\<lambda>m. (m_student_id m, m_photo_path m, m_distance m))
           (fst (match_loop env clock known_encodings known_meta unknown_encs k st)) =
         map (\<lambda>unk. (fst (known_meta ! best_idx env known_encodings unk),
                      snd (known_meta ! best_idx env known_encodings unk),
                      best_distance env known_encodings unk))
           (filter (\<lambda>unk. best_distance env known_encodings unk < 0.50) unknown_encs) \<and>
         best_idx env known_encodings unk < length known_meta \<and>
         best_distance env known_encodings unk =
           face_distance env (known_encodings ! best_idx env known_encodings unk) unk \<and>
         (\<forall>j < length known_encodings.
            best_distance env known_encodings unk \<le> face_distance env (known_encodings ! j) unk) \<and>
         (\<forall>j < best_idx env known_encodings unk.
            best_distance env known_encodings unk < face_distance env (known_encodings ! j) unk)"
proof (intro conjI allI impI)
  let ?ds = "map (\<lambda>e. face_distance env e unk) known_encodings"
  have ne: "?ds \<noteq> []" using assms(1) by simp
  have lt: "np_argmin ?ds < length known_encodings"
    using np_argmin_less[OF ne] by simp
  show "map (\<lambda>m. (m_student_id m, m_photo_path m, m_distance m))
           (fst (match_loop env clock known_encodings known_meta unknown_encs k st)) =
         map (\<lambda>unk. (fst (known_meta ! best_idx env known_encodings unk),
                      snd (known_meta ! best_idx env known_encodings unk),
                      best_distance env known_encodings unk))
           (filter (\<lambda>unk. best_distance env known_encodings unk < 0.50) unknown_encs)"
    using match_loop_triples[OF assms(1), of env clock known_meta unknown_encs k st]
    by (simp add: THRESHOLD_def)
  show "best_idx env known_encodings unk < length known_meta"
    using lt assms(2) by (simp add: best_idx_def)
  show "best_distance env known_encodings unk =
           face_distance env (known_encodings ! best_idx env known_encodings unk) unk"
    using lt by (simp add: best_distance_def best_idx_def)
  show "best_distance env known_encodings unk \<le> face_distance env (known_encodings ! j) unk"
    if "j < length known_encodings" for j
    using np_argmin_le[of j ?ds] that by (simp add: best_distance_def best_idx_def)
  show "best_distance env known_encodings unk < face_distance env (known_encodings ! j) unk"
    if "j < best_idx env known_encodings unk" for j
  proof -
    have "j < np_argmin ?ds" using that by (simp add: best_idx_def)
    moreover from this lt have "j < length known_encodings" by simp
    ultimately show ?thesis
      using np_argmin_first[of j ?ds] by (simp add: best_distance_def best_idx_def)
  qed
qed

lemma face_distance_demo: "face_distance env_demo e u = \<bar>hd e - hd u\<bar>"
  by (simp add: env_demo_def)

lemma face_encodings_demo:
  "face_encodings env_demo ''B'' = [[0.1]]"
  "face_encodings env_demo ''C'' = [[0.9], [0.1]]"
  "face_encodings env_demo ''D'' = []"
  "face_encodings env_demo ''X'' = []"
  by (simp_all add: env_demo_def)

theorem matcher_first_minimum_below_threshold_witness:
  "map (\<lambda>m. (m_student_id m, m_photo_path m, m_distance m))
     (fst (match_loop env_demo clock_demo [[0.3], [0.1], [0.1]]
            [(7, ''p7''), (8, ''p8''), (9, ''p9'')] [[0.1], [0.9], [0.35]] 0 st_demo))
     = [(8, ''p8'', 0), (7, ''p7'', 0.05)] \<and>
   best_idx env_demo [[0.3], [0.1], [0.1]] [0.1] = 1 \<and>
   best_distance env_demo [[0.3], [0.1], [0.1]] [0.9] = 0.6"
  using matcher_first_minimum_below_threshold[of "[[0.3], [0.1], [0.1]]"
      "[(7, ''p7''), (8, ''p8''), (9, ''p9'')]" env_demo clock_demo
      "[[0.1], [0.9], [0.35]]" 0 st_demo "[0.1]"]
  by (simp add: best_distance_def best_idx_def face_distance_demo del: match_loop.simps)

subsection \<open>The attendance handler\<close>

lemma compute_keeps_tables:
  "attendance (snd (compute_face_encoding_from_file env path st)) = attendance st"
  "students (snd (compute_face_encoding_from_file env path st)) = students st"
  "photos (snd (compute_face_encoding_from_file env path st)) = photos st"
  by (simp_all add: compute_face_encoding_from_file_def split: option.splits sum.splits list.splits)

lemma load_gallery_keeps_attendance:
  "load_gallery env ps st = (known_encodings, known_meta, st') \<Longrightarrow>
   attendance st' = attendance st"
proof (induction ps arbitrary: st known_encodings known_meta st')
  case Nil
  then show ?case by simp
next
  case (Cons p ps)
  obtain r st1 where c: "compute_face_encoding_from_file env (ph_photo_path p) st = (r, st1)"
    by (cases "compute_face_encoding_from_file env (ph_photo_path p) st")
  then have a1: "attendance st1 = attendance st"
    using compute_keeps_tables(1)[of env "ph_photo_path p" st] by simp
  show ?case
  proof (cases r)
    case None
    with Cons.prems c have "load_gallery env ps st1 = (known_encodings, known_meta, st')"
      by simp
    then show ?thesis using Cons.IH a1 by simp
  next
    case (Some enc)
    obtain es ms st2 where l: "load_gallery env ps st1 = (es, ms, st2)"
      by (cases "load_gallery env ps st1")
    with Cons.prems c Some have "st' = st2" by simp
    then show ?thesis using Cons.IH[OF l] a1 by simp
  qed
qed

lemma match_loop_empty_gallery:
  "match_loop env clock [] known_meta unknown_encs k st = ([], st)"
  by (induction unknown_encs) simp_all

text \<open>
  C5. With an empty gallery no query embedding produces a result and nothing is
  recorded: the matching loop returns no match and the state it was given, and the
  handler, from the face encoding onwards, answers with status 200, success true and an
  empty list of matches, leaving the attendance table as it was.
\<close>

theorem empty_gallery_no_result_no_error:
  "match_loop env clock [] known_meta unknown_encs k st = ([], st) \<and>
   (face_encodings env pil_img \<noteq> [] \<and> fst (load_gallery env (photos st) st) = [] \<longrightarrow>
      fst (recognise env clock liveness_checked pil_img st) = Matched [] liveness_checked \<and>
      attendance (snd (recognise env clock liveness_checked pil_img st)) = attendance st \<and>
      jsonify (fst (recognise env clock liveness_checked pil_img st)) =
        (JObj [(''success'', JBool True), (''matched'', JList []),
               (''liveness_checked'', JBool liveness_checked)], 200))"
proof (intro conjI impI)
  show "match_loop env clock [] known_meta unknown_encs k st = ([], st)"
    by (rule match_loop_empty_gallery)
next
  assume a: "face_encodings env pil_img \<noteq> [] \<and> fst (load_gallery env (photos st) st) = []"
  obtain km st1 where l: "load_gallery env (photos st) st = ([], km, st1)"
    using a by (cases "load_gallery env (photos st) st") auto
  have r: "recognise env clock liveness_checked pil_img st = (Matched [] liveness_checked, st1)"
    using a l by (simp add: recognise_def match_loop_empty_gallery)
  show "fst (recognise env clock liveness_checked pil_img st) = Matched [] liveness_checked"
    using r by simp
  show "attendance (snd (recognise env clock liveness_checked pil_img st)) = attendance st"
    using r load_gallery_keeps_attendance[OF l] by simp
  show "jsonify (fst (recognise env clock liveness_checked pil_img st)) =
        (JObj [(''success'', JBool True), (''matched'', JList []),
               (''liveness_checked'', JBool liveness_checked)], 200)"
    using r by simp
qed

theorem empty_gallery_no_result_no_error_witness:
  "fst (recognise env_demo clock_demo False ''C'' (st_demo\<lparr>photos := []\<rparr>)) = Matched [] False \<and>
   attendance (snd (recognise env_demo clock_demo False ''C'' (st_demo\<lparr>photos := []\<rparr>))) = []"
proof -
  have "face_encodings env_demo ''C'' \<noteq> [] \<and>
      fst (load_gallery env_demo (photos (st_demo\<lparr>photos := []\<rparr>)) (st_demo\<lparr>photos := []\<rparr>)) = []"
    by (simp add: env_demo_def)
  with empty_gallery_no_result_no_error[of env_demo clock_demo _ _ _ "st_demo\<lparr>photos := []\<rparr>"
      "''C''" False]
  show ?thesis by (simp add: st_demo_def)
qed

lemma match_loop_attendance:
  "match_loop env clock known_encodings known_meta unknown_encs k st = (matches, st') \<Longrightarrow>
   attendance st' = attendance st @
     map (\<lambda>(m, j). \<lparr>at_student_id = m_student_id m, at_date = ts_date (clock j),
                     at_time_in = ts_time (clock j), at_status = ''present'',
                     at_created_at = ts_iso (clock j)\<rparr>)
       (zip matches [k..<k + length matches])"
proof (induction unknown_encs arbitrary: k st matches st')
  case Nil
  then show ?case by simp
next
  case (Cons unk rest)
  show ?case
  proof (cases "known_encodings \<noteq> [] \<and>
      map (\<lambda>e. face_distance env e unk) known_encodings
        ! np_argmin (map (\<lambda>e. face_distance env e unk) known_encodings) < THRESHOLD")
    case False
    then have "match_loop env clock known_encodings known_meta (unk # rest) k st =
        match_loop env clock known_encodings known_meta rest k st"
      using match_loop_miss[of known_encodings env unk clock known_meta rest k st] by blast
    with Cons.prems have "match_loop env clock known_encodings known_meta rest k st = (matches, st')"
      by simp
    then show ?thesis by (rule Cons.IH)
  next
    case True
    from match_loop_hit[of known_encodings env unk known_meta clock rest k st] True
    obtain m where step: "match_loop env clock known_encodings known_meta (unk # rest) k st =
            (m # fst (match_loop env clock known_encodings known_meta rest (Suc k)
                        (st\<lparr>attendance := attendance st @
                           [\<lparr>at_student_id = m_student_id m, at_date = ts_date (clock k),
                             at_time_in = ts_time (clock k), at_status = ''present'',
                             at_created_at = ts_iso (clock k)\<rparr>]\<rparr>)),
             snd (match_loop env clock known_encodings known_meta rest (Suc k)
                        (st\<lparr>attendance := attendance st @
                           [\<lparr>at_student_id = m_student_id m, at_date = ts_date (clock k),
                             at_time_in = ts_time (clock k), at_status = ''present'',
                             at_created_at = ts_iso (clock k)\<rparr>]\<rparr>)))"
      by blast
    define st1 where "st1 = st\<lparr>attendance := attendance st @
                           [\<lparr>at_student_id = m_student_id m, at_date = ts_date (clock k),
                             at_time_in = ts_time (clock k), at_status = ''present'',
                             at_created_at = ts_iso (clock k)\<rparr>]\<rparr>"
    obtain ms st2 where rec: "match_loop env clock known_encodings known_meta rest (Suc k) st1 = (ms, st2)"
      by (cases "match_loop env clock known_encodings known_meta rest (Suc k) st1")
    from step Cons.prems rec have ms: "matches = m # ms" and st2: "st' = st2"
      by (simp_all add: st1_def)
    have a1: "attendance st1 = attendance st @
                           [\<lparr>at_student_id = m_student_id m, at_date = ts_date (clock k),
                             at_time_in = ts_time (clock k), at_status = ''present'',
                             at_created_at = ts_iso (clock k)\<rparr>]"
      by (simp add: st1_def)
    have "[k..<k + length matches] = k # [Suc k..<Suc k + length ms]"
      using ms by (subst upt_rec) simp
    then show ?thesis
      using Cons.IH[OF rec] a1 ms st2 by simp
  qed
qed

text \<open>
  C6. No deduplication: the matching loop appends one attendance row (student id, date,
  time, status present, created-at) for every match it emits, in order, whatever rows
  the table already holds; the handler, from the face encoding onwards, adds as many rows
  as the response lists matches and keeps the rows that were there.
\<close>

theorem every_match_appends_an_event:
  "attendance (snd (match_loop env clock known_encodings known_meta unknown_encs k st)) =
     attendance st @
     map (\<lambda>(m, j). \<lparr>at_student_id = m_student_id m, at_date = ts_date (clock j),
                     at_time_in = ts_time (clock j), at_status = ''present'',
                     at_created_at = ts_iso (clock j)\<rparr>)
       (zip (fst (match_loop env clock known_encodings known_meta unknown_encs k st))
            [k..<k + length (fst (match_loop env clock known_encodings known_meta
                                     unknown_encs k st))]) \<and>
   (fst (recognise env clock liveness_checked pil_img st) = Matched ms liveness_checked \<longrightarrow>
      (\<exists>rows. attendance (snd (recognise env clock liveness_checked pil_img st))
                 = attendance st @ rows \<and>
              map at_student_id rows = map m_student_id ms))"
proof (intro conjI impI)
  show "attendance (snd (match_loop env clock known_encodings known_meta unknown_encs k st)) =
     attendance st @
     map (\<lambda>(m, j). \<lparr>at_student_id = m_student_id m, at_date = ts_date (clock j),
                     at_time_in = ts_time (clock j), at_status = ''present'',
                     at_created_at = ts_iso (clock j)\<rparr>)
       (zip (fst (match_loop env clock known_encodings known_meta unknown_encs k st))
            [k..<k + length (fst (match_loop env clock known_encodings known_meta
                                     unknown_encs k st))])"
    using match_loop_attendance[of env clock known_encodings known_meta unknown_encs k st]
    by (cases "match_loop env clock known_encodings known_meta unknown_encs k st") simp
next
  assume a: "fst (recognise env clock liveness_checked pil_img st) = Matched ms liveness_checked"
  then have ne: "face_encodings env pil_img \<noteq> []"
    by (auto simp: recognise_def Let_def)
  obtain ke km st1 where l: "load_gallery env (photos st) st = (ke, km, st1)"
    by (cases "load_gallery env (photos st) st")
  obtain ms' st2 where ml: "match_loop env clock ke km (face_encodings env pil_img) 0 st1 = (ms', st2)"
    by (cases "match_loop env clock ke km (face_encodings env pil_img) 0 st1")
  have r: "recognise env clock liveness_checked pil_img st = (Matched ms' liveness_checked, st2)"
    using ne l ml by (simp add: recognise_def Let_def)
  with a have eq: "ms' = ms" by simp
  let ?rows = "map (\<lambda>(m, j). \<lparr>at_student_id = m_student_id m, at_date = ts_date (clock j),
                     at_time_in = ts_time (clock j), at_status = ''present'',
                     at_created_at = ts_iso (clock j)\<rparr>) (zip ms [0..<0 + length ms])"
  have "attendance st2 = attendance st @ ?rows"
    using match_loop_attendance[OF ml] load_gallery_keeps_attendance[OF l] eq by simp
  moreover have "map at_student_id ?rows = map m_student_id ms"
    by (rule nth_equalityI) (simp_all add: case_prod_beta)
  ultimately show "\<exists>rows. attendance (snd (recognise env clock liveness_checked pil_img st))
                 = attendance st @ rows \<and> map at_student_id rows = map m_student_id ms"
    using r by auto
qed

lemma gallery_seen:
  "load_gallery env_demo (photos st_seen) st_seen =
     ([[0.1], [0.9]], [(7, path_R1), (8, path_8)], st_seen)"
  by (simp add: st_seen_def st_demo_def compute_face_encoding_from_file_def env_demo_def
      paths_distinct)

theorem every_match_appends_an_event_witness:
  "map at_student_id
     (attendance (snd (recognise env_demo clock_demo False ''C'' st_seen))) = [8, 8, 7]"
proof -
  let ?ms = "fst (match_loop env_demo clock_demo [[0.1], [0.9]] [(7, path_R1), (8, path_8)]
                    [[0.9], [0.1]] 0 st_seen)"
  have m: "map m_student_id ?ms = [8, 7]"
    by (simp add: face_distance_demo Let_def THRESHOLD_def split: prod.splits)
  have r: "fst (recognise env_demo clock_demo False ''C'' st_seen) = Matched ?ms False"
    by (simp add: recognise_def gallery_seen face_encodings_demo split: prod.splits)
  from every_match_appends_an_event[of env_demo clock_demo _ _ _ _ st_seen False "''C''" ?ms] r
  obtain rows where
    "attendance (snd (recognise env_demo clock_demo False ''C'' st_seen))
       = attendance st_seen @ rows" and "map at_student_id rows = map m_student_id ?ms"
    by blast
  then show ?thesis using m by (simp add: st_seen_def)
qed


lemma decode_rgb_demo:
  "decode_rgb env_demo (JStr ''B'') = Inr ''B''"
  "decode_rgb env_demo (JStr ''D'') = Inr ''D''"
  "decode_rgb env_demo (JStr ''X'') = Inr ''X''"
  by (simp_all add: decode_rgb_def strip_prefix_demo py_b64decode_def env_demo_def)

lemma gallery_demo:
  "load_gallery env_demo (photos st_demo) st_demo =
     ([[0.1], [0.9]], [(7, path_R1), (8, path_8)], st_demo)"
  by (simp add: st_demo_def compute_face_encoding_from_file_def env_demo_def paths_distinct)

lemma match_loop_demo:
  "match_loop env_demo clock_demo [[0.1], [0.9]] [(7, path_R1), (8, path_8)] [[0.1]] 0 st_demo =
     ([\<lparr>m_student_id = 7, m_name = ''Ann'', m_roll_no = Some ''R1'',
        m_photo_path = path_R1, m_distance = 0\<rparr>],
      st_demo\<lparr>attendance :=
        [\<lparr>at_student_id = 7, at_date = ''2024-01-02'', at_time_in = ''03:04:05'',
          at_status = ''present'', at_created_at = ''2024-01-02T03:04:05''\<rparr>]\<rparr>)"
  by (simp add: face_distance_demo Let_def THRESHOLD_def st_demo_def clock_demo_def
      split: prod.splits)





lemma pixels_C_B: "spec_motion_pixels frame_C frame_B 30 = 1001"
proof -
  have "filter (\<lambda>(i, j). (30::int) < \<bar>uint (frame_C ! i ! j) - uint (frame_B ! i ! j)\<bar>)
          (List.product [0..<1] [0..<1001]) = List.product [0..<1] [0..<1001]"
    by (rule filter_True) (auto simp: frame_B_def frame_C_def)
  then show ?thesis
    by (simp add: spec_motion_pixels_def shape_demo)
qed

lemma motion_demo:
  "frames_have_motion env_demo [JStr ''B'', JStr ''D''] default_threshold_pixels
     default_diff_threshold = Inr True"
  "frames_have_motion env_demo [JStr ''B'', JStr ''D'', JStr ''C''] default_threshold_pixels
     default_diff_threshold = Inr True"
  "frames_have_motion env_demo [JStr ''C'', JStr ''B'', JStr ''D''] default_threshold_pixels
     default_diff_threshold = Inr True"
  by (simp_all add: frames_have_motion_def strip_prefix_demo decode_gray_demo count_above_same
      shape_demo pixels_B_C pixels_C_B spec_motion_pixels_same default_threshold_pixels_def
      default_diff_threshold_def)

text \<open>
  C9 fails on the code. Two frames with motion whose middle frame shows no face, and a
  single image that shows no face, are both answered with success true, and the body
  holds no \<open>liveness_checked\<close> field; the answer that lists matches holds it.
\<close>

theorem no_faces_response_lacks_liveness_flag:
  "fst (api_mark_attendance env_demo clock_demo
          \<lparr>rq_frames = Some (JList [JStr ''B'', JStr ''D'']), rq_image = None\<rparr> st_demo)
     = (JObj [(''success'', JBool True), (''matched'', JList []),
              (''message'', JStr ''No faces found'')], 200) \<and>
   has_bool_field ''liveness_checked''
     (fst (api_mark_attendance env_demo clock_demo
             \<lparr>rq_frames = Some (JList [JStr ''B'', JStr ''D'']), rq_image = None\<rparr> st_demo))
     = False \<and>
   has_bool_field ''liveness_checked''
     (fst (api_mark_attendance env_demo clock_demo
             \<lparr>rq_frames = None, rq_image = Some (JStr ''X'')\<rparr> st_demo)) = False \<and>
   has_bool_field ''liveness_checked'' (jsonify (Matched ms lc)) = True"
proof -
  have lib: "FACE_LIB_AVAILABLE env_demo" by (simp add: env_demo_def)
  have a: "mark_attendance env_demo clock_demo
      \<lparr>rq_frames = Some (JList [JStr ''B'', JStr ''D'']), rq_image = None\<rparr> st_demo
      = (NoFaces, st_demo)"
    using lib by (simp add: mark_attendance_def usable_frames_def motion_demo decode_rgb_demo
        recognise_def face_encodings_demo)
  have b: "mark_attendance env_demo clock_demo
      \<lparr>rq_frames = None, rq_image = Some (JStr ''X'')\<rparr> st_demo = (NoFaces, st_demo)"
    using lib by (simp add: mark_attendance_def usable_frames_def usable_image_def
        decode_rgb_demo recognise_def face_encodings_demo)
  show ?thesis
    by (simp add: api_mark_attendance_def a b has_bool_field_def)
qed

text \<open>
  C10. When the request carries at least two frames and motion is detected, the handler
  decodes the frame at index \<open>length frames div 2\<close> alone and matches the faces the
  encoder finds in that frame: with no face there the answer is that no faces were found;
  otherwise the matches are those of the matching loop run on the faces of that frame,
  one for each face of it whose least distance to the gallery is below 0.50. Two such
  requests with the same middle frame have the same outcome, whatever their other frames
  show.
\<close>

theorem matching_uses_middle_frame_only:
  assumes "FACE_LIB_AVAILABLE env"
    and "usable_frames req = Some frames"
    and "frames_have_motion env frames default_threshold_pixels default_diff_threshold
           = Inr True"
  shows "length frames div 2 < length frames \<and>
         (decode_rgb env (frames ! (length frames div 2)) = Inl e \<longrightarrow>
            mark_attendance env clock req st = (LivenessFailed e, st)) \<and>
         (decode_rgb env (frames ! (length frames div 2)) = Inr pil_img \<and>
          load_gallery env (photos st) st = (known_encodings, known_meta, st1) \<longrightarrow>
            (face_encodings env pil_img = [] \<longrightarrow>
               mark_attendance env clock req st = (NoFaces, st)) \<and>
            (face_encodings env pil_img \<noteq> [] \<longrightarrow>
               mark_attendance env clock req st =
                 (Matched (fst (match_loop env clock known_encodings known_meta
                                  (face_encodings env pil_img) 0 st1)) True,
                  snd (match_loop env clock known_encodings known_meta
                         (face_encodings env pil_img) 0 st1))) \<and>
            (face_encodings env pil_img \<noteq> [] \<and> known_encodings \<noteq> [] \<longrightarrow>
               (\<exists>ms. fst (mark_attendance env clock req st) = Matched ms True \<and>
                  map (\<lambda>m. (m_student_id m, m_photo_path m, m_distance m)) ms =
                  map (\<lambda>unk. (fst (known_meta ! best_idx env known_encodings unk),
                               snd (known_meta ! best_idx env known_encodings unk),
                               best_distance env known_encodings unk))
                    (filter (\<lambda>unk. best_distance env known_encodings unk < 0.50)
                       (face_encodings env pil_img))))) \<and>
         (usable_frames req' = Some frames' \<and>
          frames_have_motion env frames' default_threshold_pixels default_diff_threshold
            = Inr True \<and>
          frames' ! (length frames' div 2) = frames ! (length frames div 2) \<longrightarrow>
            mark_attendance env clock req' st = mark_attendance env clock req st)"
proof -
  have "2 \<le> length frames"
    using assms(2) by (simp add: usable_frames_def split: option.splits json.splits if_splits)
  then have mid: "length frames div 2 < length frames" by simp
  have m: "mark_attendance env clock req st =
      (case decode_rgb env (frames ! (length frames div 2)) of
         Inl e \<Rightarrow> (LivenessFailed e, st)
       | Inr pil_img \<Rightarrow> recognise env clock True pil_img st)"
    using assms by (simp add: mark_attendance_def)
  have fail: "mark_attendance env clock req st = (LivenessFailed e, st)"
    if "decode_rgb env (frames ! (length frames div 2)) = Inl e"
    using that by (simp add: m)
  have same: "mark_attendance env clock req' st = mark_attendance env clock req st"
    if t: "usable_frames req' = Some frames' \<and>
        frames_have_motion env frames' default_threshold_pixels default_diff_threshold
          = Inr True \<and>
        frames' ! (length frames' div 2) = frames ! (length frames div 2)"
  proof -
    have "mark_attendance env clock req' st =
      (case decode_rgb env (frames' ! (length frames' div 2)) of
         Inl e \<Rightarrow> (LivenessFailed e, st)
       | Inr pil_img \<Rightarrow> recognise env clock True pil_img st)"
      using t assms(1) by (simp add: mark_attendance_def)
    then show ?thesis using t by (simp add: m)
  qed
  have faces: "(face_encodings env pil_img = [] \<longrightarrow>
               mark_attendance env clock req st = (NoFaces, st)) \<and>
            (face_encodings env pil_img \<noteq> [] \<longrightarrow>
               mark_attendance env clock req st =
                 (Matched (fst (match_loop env clock known_encodings known_meta
                                  (face_encodings env pil_img) 0 st1)) True,
                  snd (match_loop env clock known_encodings known_meta
                         (face_encodings env pil_img) 0 st1))) \<and>
            (face_encodings env pil_img \<noteq> [] \<and> known_encodings \<noteq> [] \<longrightarrow>
               (\<exists>ms. fst (mark_attendance env clock req st) = Matched ms True \<and>
                  map (\<lambda>m. (m_student_id m, m_photo_path m, m_distance m)) ms =
                  map (\<lambda>unk. (fst (known_meta ! best_idx env known_encodings unk),
                               snd (known_meta ! best_idx env known_encodings unk),
                               best_distance env known_encodings unk))
                    (filter (\<lambda>unk. best_distance env known_encodings unk < 0.50)
                       (face_encodings env pil_img))))"
    if d: "decode_rgb env (frames ! (length frames div 2)) = Inr pil_img \<and>
        load_gallery env (photos st) st = (known_encodings, known_meta, st1)"
  proof -
    have r: "mark_attendance env clock req st = recognise env clock True pil_img st"
      using d by (simp add: m)
    have none: "mark_attendance env clock req st = (NoFaces, st)"
      if "face_encodings env pil_img = []"
      using that by (simp add: r recognise_def)
    have some: "mark_attendance env clock req st =
                 (Matched (fst (match_loop env clock known_encodings known_meta
                                  (face_encodings env pil_img) 0 st1)) True,
                  snd (match_loop env clock known_encodings known_meta
                         (face_encodings env pil_img) 0 st1))"
      if "face_encodings env pil_img \<noteq> []"
      using that d by (simp add: r recognise_def Let_def case_prod_beta)
    have triples: "\<exists>ms. fst (mark_attendance env clock req st) = Matched ms True \<and>
                  map (\<lambda>m. (m_student_id m, m_photo_path m, m_distance m)) ms =
                  map (\<lambda>unk. (fst (known_meta ! best_idx env known_encodings unk),
                               snd (known_meta ! best_idx env known_encodings unk),
                               best_distance env known_encodings unk))
                    (filter (\<lambda>unk. best_distance env known_encodings unk < 0.50)
                       (face_encodings env pil_img))"
      if "face_encodings env pil_img \<noteq> [] \<and> known_encodings \<noteq> []"
      using that some
        match_loop_triples[of known_encodings env clock known_meta
          "face_encodings env pil_img" 0 st1]
      by (simp add: THRESHOLD_def)
    from none some triples show ?thesis by blast
  qed
  from mid fail faces same show ?thesis by blast
qed

theorem matching_uses_middle_frame_only_witness:
  "mark_attendance env_demo clock_demo
     \<lparr>rq_frames = Some (JList [JStr ''C'', JStr ''B'', JStr ''D'']), rq_image = None\<rparr> st_demo
     = (Matched [\<lparr>m_student_id = 7, m_name = ''Ann'', m_roll_no = Some ''R1'',
                  m_photo_path = path_R1, m_distance = 0\<rparr>] True,
        st_demo\<lparr>attendance :=
          [\<lparr>at_student_id = 7, at_date = ''2024-01-02'', at_time_in = ''03:04:05'',
            at_status = ''present'', at_created_at = ''2024-01-02T03:04:05''\<rparr>]\<rparr>) \<and>
   mark_attendance env_demo clock_demo
     \<lparr>rq_frames = Some (JList [JStr ''B'', JStr ''D'', JStr ''C'']), rq_image = None\<rparr> st_demo
     = (NoFaces, st_demo)"
proof -
  have lib: "FACE_LIB_AVAILABLE env_demo" by (simp add: env_demo_def)
  have u: "usable_frames
      \<lparr>rq_frames = Some (JList [JStr ''C'', JStr ''B'', JStr ''D'']), rq_image = None\<rparr>
      = Some [JStr ''C'', JStr ''B'', JStr ''D'']"
    "usable_frames
      \<lparr>rq_frames = Some (JList [JStr ''B'', JStr ''D'', JStr ''C'']), rq_image = None\<rparr>
      = Some [JStr ''B'', JStr ''D'', JStr ''C'']"
    by (simp_all add: usable_frames_def)
  from matching_uses_middle_frame_only[where env = env_demo and frames =
        "[JStr ''C'', JStr ''B'', JStr ''D'']" and pil_img = "''B''" and st = st_demo
        and known_encodings = "[[0.1], [0.9]]"
        and known_meta = "[(7, path_R1), (8, path_8)]" and ?st1.0 = st_demo
        and clock = clock_demo, OF lib u(1) motion_demo(3)]
  have "mark_attendance env_demo clock_demo
     \<lparr>rq_frames = Some (JList [JStr ''C'', JStr ''B'', JStr ''D'']), rq_image = None\<rparr> st_demo
     = (Matched (fst (match_loop env_demo clock_demo [[0.1], [0.9]]
                        [(7, path_R1), (8, path_8)] [[0.1]] 0 st_demo)) True,
        snd (match_loop env_demo clock_demo [[0.1], [0.9]]
               [(7, path_R1), (8, path_8)] [[0.1]] 0 st_demo))"
    by (simp add: decode_rgb_demo gallery_demo face_encodings_demo del: match_loop.simps)
  then have a: "mark_attendance env_demo clock_demo
     \<lparr>rq_frames = Some (JList [JStr ''C'', JStr ''B'', JStr ''D'']), rq_image = None\<rparr> st_demo
     = (Matched [\<lparr>m_student_id = 7, m_name = ''Ann'', m_roll_no = Some ''R1'',
                  m_photo_path = path_R1, m_distance = 0\<rparr>] True,
        st_demo\<lparr>attendance :=
          [\<lparr>at_student_id = 7, at_date = ''2024-01-02'', at_time_in = ''03:04:05'',
            at_status = ''present'', at_created_at = ''2024-01-02T03:04:05''\<rparr>]\<rparr>)"
    by (simp only: match_loop_demo fst_conv snd_conv)
  from matching_uses_middle_frame_only[where env = env_demo and frames =
        "[JStr ''B'', JStr ''D'', JStr ''C'']" and pil_img = "''D''" and st = st_demo
        and known_encodings = "[[0.1], [0.9]]"
        and known_meta = "[(7, path_R1), (8, path_8)]" and ?st1.0 = st_demo
        and clock = clock_demo, OF lib u(2) motion_demo(2)]
  have b: "mark_attendance env_demo clock_demo
     \<lparr>rq_frames = Some (JList [JStr ''B'', JStr ''D'', JStr ''C'']), rq_image = None\<rparr> st_demo
     = (NoFaces, st_demo)"
    by (simp add: decode_rgb_demo gallery_demo face_encodings_demo del: match_loop.simps)
  from a b show ?thesis by blast
qed

end
